theory Spec2Isabelle
  imports Complex_Main "HOL-Library.Sublist" "HOL-Library.AList"
begin

section \<open>Conversation items\<close>

text \<open>
  The three variants of \<^verbatim>\<open>llm.ChatItem\<close> that \<^verbatim>\<open>BaseAgent\<close> inspects. Every
  variant carries an \<^verbatim>\<open>id\<close>; only a message has a \<^verbatim>\<open>role\<close>. Strings are kept as
  strings, since the code compares \<^verbatim>\<open>item.type\<close> and \<^verbatim>\<open>item.role\<close> with literals.
\<close>

datatype ChatItem =
    ChatMessage (item_id: string) (role: string) (content: string)
  | FunctionCall (item_id: string) (call_id: string) (name: string) (arguments: string)
  | FunctionCallOutput (item_id: string) (call_id: string) (call_output: string)

fun item_type :: "ChatItem \<Rightarrow> string" where
  "item_type (ChatMessage i r c) = ''message''"
| "item_type (FunctionCall i c n a) = ''function_call''"
| "item_type (FunctionCallOutput i c out) = ''function_call_output''"

section \<open>Truncation of the chat context\<close>

text \<open>
  \<^verbatim>\<open>BaseAgent._truncate_chat_ctx\<close>, identical in \<^verbatim>\<open>customer_support_agent.py\<close>
  (lines 248 to 279) and \<^verbatim>\<open>real_estate_agent.py\<close> (lines 195 to 226).

  \<^verbatim>\<open>_valid_item\<close>: the role is read only when the type is \<^verbatim>\<open>message\<close>
  (the \<^verbatim>\<open>and\<close> short-circuits).
\<close>

fun valid_item :: "bool \<Rightarrow> bool \<Rightarrow> ChatItem \<Rightarrow> bool" where
  "valid_item keep_system_message keep_function_call (ChatMessage i r c) =
     (if \<not> keep_system_message \<and> r = ''system'' then False else True)"
| "valid_item keep_system_message keep_function_call item =
     (if \<not> keep_function_call
         \<and> item_type item \<in> set [''function_call'', ''function_call_output'']
      then False else True)"

text \<open>
  The \<^verbatim>\<open>for item in reversed(items)\<close> loop. The first argument is what is left of the
  reversed list, the last one is \<^verbatim>\<open>new_items\<close>. The length test follows the append in
  every iteration, also when nothing was appended; \<^verbatim>\<open>keep_last_n_messages\<close> is a
  Python integer and may be zero or negative.
\<close>

fun collect_items :: "int \<Rightarrow> bool \<Rightarrow> bool \<Rightarrow> ChatItem list \<Rightarrow> ChatItem list \<Rightarrow> ChatItem list" where
  "collect_items keep_last_n_messages ksm kfc [] new_items = new_items"
| "collect_items keep_last_n_messages ksm kfc (item # rest) new_items =
     (let new_items' = (if valid_item ksm kfc item then new_items @ [item] else new_items)
      in if int (length new_items') \<ge> keep_last_n_messages then new_items'
         else collect_items keep_last_n_messages ksm kfc rest new_items')"

text \<open>
  The \<^verbatim>\<open>while new_items and new_items[0].type in [...]\<close> loop with \<^verbatim>\<open>pop(0)\<close>.
\<close>

fun pop_leading_calls :: "ChatItem list \<Rightarrow> ChatItem list" where
  "pop_leading_calls [] = []"
| "pop_leading_calls (item # rest) =
     (if item_type item \<in> set [''function_call'', ''function_call_output'']
      then pop_leading_calls rest else item # rest)"

definition truncate_chat_ctx :: "ChatItem list \<Rightarrow> int \<Rightarrow> bool \<Rightarrow> bool \<Rightarrow> ChatItem list" where
  "truncate_chat_ctx items keep_last_n_messages keep_system_message keep_function_call =
     pop_leading_calls
       (rev (collect_items keep_last_n_messages keep_system_message keep_function_call
               (rev items) []))"

text \<open>A toolCall or toolResult item, in the words of the specification.\<close>

definition is_tool_item :: "ChatItem \<Rightarrow> bool" where
  "is_tool_item item =
     (item_type item = ''function_call'' \<or> item_type item = ''function_call_output'')"

text \<open>
  Eligibility in the words of the specification: an item is eligible unless it is a
  system-role message and system messages are not kept, or it is a tool item and tool
  items are not kept. Then the eligible items of a list, and the \<open>n\<close> most recent
  elements of a list.
\<close>

fun is_system_message :: "ChatItem \<Rightarrow> bool" where
  "is_system_message (ChatMessage i r c) = (r = ''system'')"
| "is_system_message item = False"

definition eligible_item :: "bool \<Rightarrow> bool \<Rightarrow> ChatItem \<Rightarrow> bool" where
  "eligible_item keepSystemMessages keepToolItems item =
     (\<not> ((is_system_message item \<and> \<not> keepSystemMessages)
         \<or> (is_tool_item item \<and> \<not> keepToolItems)))"

definition eligible :: "bool \<Rightarrow> bool \<Rightarrow> ChatItem list \<Rightarrow> ChatItem list" where
  "eligible keepSystemMessages keepToolItems items =
     filter (eligible_item keepSystemMessages keepToolItems) items"

definition most_recent :: "nat \<Rightarrow> 'a list \<Rightarrow> 'a list" where
  "most_recent n xs = drop (length xs - n) xs"

section \<open>Python values\<close>

text \<open>
  \<^verbatim>\<open>IssueType\<close> of \<^verbatim>\<open>customer_support_agent.py\<close>, and the values that the two
  \<^verbatim>\<open>summarize\<close> methods put into the dictionary they hand to \<^verbatim>\<open>yaml.dump\<close>. A
  dictionary is an association list in insertion order. A Python \<^verbatim>\<open>float\<close> is only
  stored and passed on here, never computed with.
\<close>

datatype IssueType = RETURN | TECHNICAL | BILLING | OTHER

datatype pyval =
    PNone
  | PBool bool
  | PInt int
  | PFloat real
  | PStr string
  | PEnum IssueType
  | PList "pyval list"
  | PDict "(string \<times> pyval) list"

text \<open>Truthiness of an \<^verbatim>\<open>Optional[str]\<close> and of an \<^verbatim>\<open>Optional[int]\<close>.\<close>

fun truthy_str :: "string option \<Rightarrow> bool" where
  "truthy_str None = False"
| "truthy_str (Some s) = (s \<noteq> [])"

fun truthy_int :: "int option \<Rightarrow> bool" where
  "truthy_int None = False"
| "truthy_int (Some n) = (n \<noteq> 0)"

text \<open>\<^verbatim>\<open>x or "unknown"\<close> for an optional string \<^verbatim>\<open>x\<close>.\<close>

fun or_unknown :: "string option \<Rightarrow> pyval" where
  "or_unknown None = PStr ''unknown''"
| "or_unknown (Some s) = (if s \<noteq> [] then PStr s else PStr ''unknown'')"

fun opt_str :: "string option \<Rightarrow> pyval" where
  "opt_str None = PNone"
| "opt_str (Some s) = PStr s"

fun opt_int :: "int option \<Rightarrow> pyval" where
  "opt_int None = PNone"
| "opt_int (Some n) = PInt n"

fun opt_float :: "real option \<Rightarrow> pyval" where
  "opt_float None = PNone"
| "opt_float (Some x) = PFloat x"

text \<open>An optional string inside an f-string: \<^verbatim>\<open>None\<close> prints as \<^verbatim>\<open>None\<close>.\<close>

fun format_opt :: "string option \<Rightarrow> string" where
  "format_opt None = ''None''"
| "format_opt (Some s) = s"

text \<open>\<^verbatim>\<open>sep.join(parts)\<close>.\<close>

fun str_join :: "string \<Rightarrow> string list \<Rightarrow> string" where
  "str_join sep [] = []"
| "str_join sep [p] = p"
| "str_join sep (p # ps) = p @ sep @ str_join sep ps"

text \<open>
  \<^verbatim>\<open>str.lower()\<close> on the letters A to Z; the characters of a HOL string are bytes.
  Python lowers letters beyond ASCII as well; here they are left as they are.
\<close>

definition str_lower :: "string \<Rightarrow> string" where
  "str_lower s =
     map (\<lambda>c. let n = (of_char c :: nat) in
               if 65 \<le> n \<and> n \<le> 90 then char_of (n + 32) else c) s"




section \<open>Customer support: the shared session state\<close>

text \<open>
  Agents are objects shared between the registry \<^verbatim>\<open>userdata.agents\<close>,
  \<^verbatim>\<open>userdata.prev_agent\<close> and the session, so they live in a store and are named by
  references. Of an agent the code reads its class name, its chat context and its own
  \<^verbatim>\<open>llm\<close>, if it has one.
\<close>

type_synonym agent_ref = nat

datatype llm_model = LLM | RealtimeModel

record Agent =
  class_name :: string
  chat_ctx :: "ChatItem list"
  llm :: "llm_model option"

text \<open>\<^verbatim>\<open>UserData\<close> of \<^verbatim>\<open>customer_support_agent.py\<close>, lines 101 to 130.\<close>

record UserData =
  customer_name :: "string option"
  customer_email :: "string option"
  customer_phone :: "string option"
  order_number :: "string option"
  product_id :: "string option"
  issue_type :: "IssueType option"
  issue_description :: "string option"
  return_reason :: "string option"
  return_approved :: bool
  return_label_sent :: bool
  refund_amount :: "real option"
  refund_approved :: bool
  escalated :: bool
  escalation_reason :: "string option"
  satisfaction_rating :: "int option"
  agents :: "string \<rightharpoonup> agent_ref"
  prev_agent :: "agent_ref option"

text \<open>The dataclass defaults: what \<^verbatim>\<open>UserData()\<close> builds.\<close>

definition new_UserData :: UserData where
  "new_UserData =
     \<lparr>customer_name = None, customer_email = None, customer_phone = None,
      order_number = None, product_id = None, issue_type = None, issue_description = None,
      return_reason = None, return_approved = False, return_label_sent = False,
      refund_amount = None, refund_approved = False,
      escalated = False, escalation_reason = None,
      satisfaction_rating = None,
      agents = Map.empty, prev_agent = None\<rparr>"

text \<open>
  The dictionary built by \<^verbatim>\<open>UserData.summarize\<close> (lines 133 to 159), entry by entry
  in the order of the source. Every \<^verbatim>\<open>IssueType\<close> member is a non-empty string and so
  is truthy.
\<close>

definition summary_data :: "UserData \<Rightarrow> pyval" where
  "summary_data self =
     PDict
      [(''customer_info'',
          PDict [(''name'', or_unknown (customer_name self)),
                 (''email'', or_unknown (customer_email self)),
                 (''phone'', or_unknown (customer_phone self))]),
       (''issue_details'',
          PDict [(''order_number'', or_unknown (order_number self)),
                 (''product_id'', or_unknown (product_id self)),
                 (''issue_type'',
                    (case issue_type self of Some t \<Rightarrow> PEnum t | None \<Rightarrow> PStr ''unknown'')),
                 (''description'', or_unknown (issue_description self))]),
       (''return_status'',
          (if issue_type self = Some RETURN
           then PDict [(''reason'', opt_str (return_reason self)),
                       (''approved'', PBool (return_approved self)),
                       (''label_sent'', PBool (return_label_sent self))]
           else PNone)),
       (''billing_status'',
          (if issue_type self = Some BILLING
           then PDict [(''refund_amount'', opt_float (refund_amount self)),
                       (''approved'', PBool (refund_approved self))]
           else PNone)),
       (''escalation'',
          PDict [(''escalated'', PBool (escalated self)),
                 (''reason'', opt_str (escalation_reason self))]),
       (''satisfaction'', opt_int (satisfaction_rating self))]"


text \<open>
  What the code reads of \<^verbatim>\<open>AgentSession\<close> and \<^verbatim>\<open>RunContext\<close>: the user data, the
  active agent, the session's \<^verbatim>\<open>llm\<close>, and the agent objects. \<open>reply_requests\<close>
  records the \<^verbatim>\<open>tool_choice\<close> of every \<^verbatim>\<open>generate_reply\<close> call.
\<close>

record AgentSession =
  userdata :: UserData
  current_agent :: agent_ref
  session_llm :: "llm_model option"
  agent_objects :: "agent_ref \<Rightarrow> Agent"
  reply_requests :: "string list"

datatype error = KeyError string

section \<open>Customer support: handoff and entry hook\<close>

text \<open>
  \<^verbatim>\<open>BaseAgent._transfer_to_agent\<close> (lines 240 to 246). \<^verbatim>\<open>userdata.agents[name]\<close>
  raises \<^verbatim>\<open>KeyError\<close> for a missing key, before \<^verbatim>\<open>prev_agent\<close> is assigned.
\<close>

definition transfer_to_agent ::
  "string \<Rightarrow> AgentSession \<Rightarrow> error + (AgentSession \<times> (agent_ref \<times> string))" where
  "transfer_to_agent name' context =
     (let userdata' = userdata context;
          current_agent' = current_agent context
      in case agents userdata' name' of
           None \<Rightarrow> Inl (KeyError name')
         | Some next_agent \<Rightarrow>
             Inr (context\<lparr>userdata := userdata'\<lparr>prev_agent := Some current_agent'\<rparr>\<rparr>,
                  (next_agent, ''Transferring to '' @ name' @ ''.'')))"

text \<open>
  The history carry-over of \<^verbatim>\<open>on_enter\<close> (lines 225 to 230): truncate the previous
  agent's items with \<^verbatim>\<open>keep_function_call=True\<close>, drop those whose id is already in
  the receiving buffer, append the rest.
\<close>

definition carry_over :: "ChatItem list \<Rightarrow> ChatItem list \<Rightarrow> ChatItem list" where
  "carry_over items prev_items =
     (let items_copy = truncate_chat_ctx prev_items 6 False True;
          existing_ids = set (map item_id items);
          items_copy' = filter (\<lambda>item. item_id item \<notin> existing_ids) items_copy
      in items @ items_copy')"


section \<open>Customer support: tool operations\<close>

text \<open>
  A tool takes its arguments and the user data and returns its answer together with the
  user data it leaves behind.

  \<^verbatim>\<open>update_customer_info\<close>, lines 167 to 193.
\<close>

definition update_customer_info ::
  "string option \<Rightarrow> string option \<Rightarrow> string option \<Rightarrow> UserData \<Rightarrow> string \<times> UserData" where
  "update_customer_info name' email phone userdata0 =
     (let userdata1 = (if truthy_str name' then userdata0\<lparr>customer_name := name'\<rparr> else userdata0);
          userdata2 = (if truthy_str email then userdata1\<lparr>customer_email := email\<rparr> else userdata1);
          userdata3 = (if truthy_str phone then userdata2\<lparr>customer_phone := phone\<rparr> else userdata2);
          updated_fields =
            (if truthy_str name' then [''name''] else [])
            @ (if truthy_str email then [''email''] else [])
            @ (if truthy_str phone then [''phone''] else [])
      in (''Thank you, I've updated your '' @ str_join '', '' updated_fields @ ''.'',
          userdata3))"

text \<open>\<^verbatim>\<open>record_satisfaction\<close>, lines 196 to 210.\<close>

definition record_satisfaction :: "int \<Rightarrow> UserData \<Rightarrow> string \<times> UserData" where
  "record_satisfaction rating userdata0 =
     (let userdata1 = userdata0\<lparr>satisfaction_rating := Some rating\<rparr>
      in if rating \<ge> 4
         then (''Thank you for your positive feedback! We're glad we could help you today.'',
               userdata1)
         else if rating = 3
         then (''Thank you for your feedback. We're always working to improve our service.'',
               userdata1)
         else (''I'm sorry to hear that. We take your feedback seriously and will use it to improve our service.'',
               userdata1))"

text \<open>
  \<^verbatim>\<open>InitialSupport.identify_issue\<close>, lines 294 to 313. How an \<^verbatim>\<open>IssueType\<close> prints
  inside an f-string depends on the Python version; it is the parameter
  \<open>format_IssueType\<close>. The signature in the source puts parameters without a default
  after parameters with one, which Python rejects when it compiles the module; the model
  follows the body as it is written, with the arguments in the order of the source.
\<close>

definition identify_issue ::
  "(IssueType \<Rightarrow> string) \<Rightarrow> string option \<Rightarrow> string option \<Rightarrow> IssueType \<Rightarrow> string
     \<Rightarrow> UserData \<Rightarrow> string \<times> UserData" where
  "identify_issue format_IssueType order_number' product_id' issue_type' description userdata0 =
     (let userdata1 = (if truthy_str order_number'
                       then userdata0\<lparr>order_number := order_number'\<rparr> else userdata0);
          userdata2 = (if truthy_str product_id'
                       then userdata1\<lparr>product_id := product_id'\<rparr> else userdata1);
          userdata3 = userdata2\<lparr>issue_type := Some issue_type',
                                issue_description := Some description\<rparr>
      in (''Thank you for providing those details. I understand you're having a ''
            @ format_IssueType issue_type'
            @ '' issue. I'll route you to the appropriate specialist.'',
          userdata3))"

text \<open>
  \<^verbatim>\<open>PRODUCT_DATABASE\<close> (lines 31 to 63): of each product the id and the categories,
  which is all that \<^verbatim>\<open>process_return\<close> reads.
\<close>

definition PRODUCT_DATABASE :: "(string \<times> string list) list" where
  "PRODUCT_DATABASE =
     [(''P001'', [''Electronics'', ''Audio'']),
      (''P002'', [''Electronics'', ''Television'']),
      (''P003'', [''Furniture'', ''Office'']),
      (''P004'', [''Services'', ''Subscription''])]"

text \<open>\<^verbatim>\<open>ReturnsAgent.process_return\<close>, lines 361 to 391.\<close>

definition process_return :: "string \<Rightarrow> UserData \<Rightarrow> string \<times> UserData" where
  "process_return reason userdata0 =
     (if \<not> truthy_str (order_number userdata0) \<or> \<not> truthy_str (product_id userdata0)
      then (''Before I can process your return, I'll need your order number and the product ID. Do you have those available?'',
            userdata0)
      else
        case find (\<lambda>product. Some (fst product) = product_id userdata0) PRODUCT_DATABASE of
          None \<Rightarrow>
            (''I'm unable to find product ID '' @ format_opt (product_id userdata0)
               @ '' in our system. Could you please verify the product ID?'',
             userdata0)
        | Some product_found \<Rightarrow>
            if ''Subscription'' \<in> set (snd product_found)
            then (''This appears to be a subscription service, which follows our digital services cancellation policy. Let me transfer you to our billing department who can help with cancellations and refunds.'',
                  userdata0)
            else (''Thank you for providing that information. Based on our policy, your return has been approved. Would you like me to email you a return shipping label?'',
                  userdata0\<lparr>return_reason := Some reason, return_approved := True\<rparr>))"

text \<open>\<^verbatim>\<open>ReturnsAgent.send_return_label\<close>, lines 393 to 410.\<close>

definition send_return_label :: "UserData \<Rightarrow> string \<times> UserData" where
  "send_return_label userdata0 =
     (if \<not> return_approved userdata0
      then (''I see that your return hasn't been approved yet. Let's first verify if your product is eligible for return.'',
            userdata0)
      else if \<not> truthy_str (customer_email userdata0)
      then (''I'll need your email address to send the return label. Could you please provide that?'',
            userdata0)
      else (''Great! I've sent a return shipping label to '' @ format_opt (customer_email userdata0)
              @ ''. Once you ship the item back, your refund will be processed within 5-7 business days after we receive it. Is there anything else I can help you with today?'',
            userdata0\<lparr>return_label_sent := True\<rparr>))"

text \<open>
  \<^verbatim>\<open>TechnicalAgent.troubleshoot_issue\<close>, lines 443 to 473, with the three entries of
  \<^verbatim>\<open>TECHNICAL_KNOWLEDGE_BASE\<close> (lines 66 to 91). It never assigns to the user data.
\<close>

definition TECHNICAL_KNOWLEDGE_BASE :: "string \<rightharpoonup> string" where
  "TECHNICAL_KNOWLEDGE_BASE =
     [''headphones_not_connecting'' \<mapsto>
        ''If your headphones aren't connecting via Bluetooth: 1. Ensure Bluetooth is enabled on your device. 2. Put the headphones in pairing mode (usually by holding the power button). 3. Make sure the headphones are charged. 4. If previously paired, try removing the device from your Bluetooth settings and reconnect. 5. Reset the headphones by holding the power button for 10 seconds.'',
      ''tv_no_picture'' \<mapsto>
        ''If your TV has power but no picture: 1. Check that the correct input source is selected. 2. Verify all cables are securely connected. 3. Try unplugging the TV for 30 seconds, then plug it back in. 4. If using external devices, try disconnecting them and connecting directly to TV. 5. Try a factory reset through your TV settings.'',
      ''subscription_access_issues'' \<mapsto>
        ''If you're having trouble accessing your subscription content: 1. Verify your account is active and subscription hasn't expired. 2. Try logging out and back in. 3. Clear your browser cache and cookies. 4. Check if the service is experiencing an outage. 5. Try accessing from a different device or browser.'']"

definition troubleshoot_issue :: "UserData \<Rightarrow> string \<times> UserData" where
  "troubleshoot_issue userdata0 =
     (if \<not> truthy_str (product_id userdata0) \<and> \<not> truthy_str (issue_description userdata0)
      then (''To help troubleshoot your issue, I'll need more details about the product and the problem you're experiencing. Could you describe what's happening?'',
            userdata0)
      else
        let d = (if truthy_str (issue_description userdata0)
                 then str_lower (format_opt (issue_description userdata0)) else [])
        in if sublist ''headphone'' d
              \<and> (sublist ''connect'' d \<or> sublist ''bluetooth'' d \<or> sublist ''pair'' d)
           then (format_opt (TECHNICAL_KNOWLEDGE_BASE ''headphones_not_connecting''), userdata0)
           else if sublist ''tv'' d
              \<and> (sublist ''picture'' d \<or> sublist ''display'' d \<or> sublist ''screen'' d)
           then (format_opt (TECHNICAL_KNOWLEDGE_BASE ''tv_no_picture''), userdata0)
           else if sublist ''subscription'' d
              \<and> (sublist ''access'' d \<or> sublist ''login'' d \<or> sublist ''content'' d)
           then (format_opt (TECHNICAL_KNOWLEDGE_BASE ''subscription_access_issues''), userdata0)
           else (''Based on the information you've provided, I recommend the following general troubleshooting steps:''
                   @ [CHR 0x0A, CHR 0x0A]
                   @ ''1. Power cycle the device (turn it off, unplug it for 30 seconds, then plug it back in and turn it on).''
                   @ [CHR 0x0A]
                   @ ''2. Ensure all connections are secure and properly attached.''
                   @ [CHR 0x0A]
                   @ ''3. Check for any available software or firmware updates.''
                   @ [CHR 0x0A]
                   @ ''4. Try using the device in a different environment or setup if possible.''
                   @ [CHR 0x0A, CHR 0x0A]
                   @ ''Did any of these steps help resolve your issue?'',
                 userdata0))"

text \<open>
  \<^verbatim>\<open>BillingAgent.process_refund\<close>, lines 513 to 533. \<open>format_2f\<close> stands for the
  float format \<^verbatim>\<open>{amount:.2f}\<close>.
\<close>

definition process_refund :: "(real \<Rightarrow> string) \<Rightarrow> real \<Rightarrow> UserData \<Rightarrow> string \<times> UserData" where
  "process_refund format_2f amount userdata0 =
     (if \<not> truthy_str (order_number userdata0)
      then (''Before I can process a refund, I'll need your order number. Do you have that available?'',
            userdata0)
      else if \<not> truthy_str (customer_email userdata0)
      then (''I'll need your email address to process the refund. Could you please provide that?'',
            userdata0)
      else (''I've processed a refund of $'' @ format_2f amount
              @ '' for your order. The refund will be credited back to your original payment method within 5-7 business days. You'll receive a confirmation email at ''
              @ format_opt (customer_email userdata0)
              @ ''. Is there anything else I can help you with today?'',
            userdata0\<lparr>refund_amount := Some amount, refund_approved := True\<rparr>))"

text \<open>\<^verbatim>\<open>BillingAgent.manage_subscription\<close>, lines 535 to 556.\<close>

definition manage_subscription :: "string \<Rightarrow> UserData \<Rightarrow> string \<times> UserData" where
  "manage_subscription action userdata0 =
     (if \<not> truthy_str (customer_email userdata0)
      then (''I'll need your email address to locate your subscription. Could you please provide that?'',
            userdata0)
      else if str_lower action = ''cancel''
      then (''I've cancelled your subscription. You'll have access until the end of your current billing period. You'll receive a confirmation email at ''
              @ format_opt (customer_email userdata0)
              @ ''. Is there anything else I can help you with today?'',
            userdata0)
      else if str_lower action = ''pause''
      then (''I've paused your subscription for 30 days. Your billing will resume after that period. You'll receive a confirmation email at ''
              @ format_opt (customer_email userdata0)
              @ ''. Is there anything else I can help you with today?'',
            userdata0)
      else if str_lower action = ''resume''
      then (''I've resumed your subscription. Your next billing date will be updated accordingly. You'll receive a confirmation email at ''
              @ format_opt (customer_email userdata0)
              @ ''. Is there anything else I can help you with today?'',
            userdata0)
      else (''I'm not sure what action you want to take on your subscription. Would you like to cancel, pause, or resume your subscription?'',
            userdata0))"

text \<open>
  \<^verbatim>\<open>ManagerAgent.resolve_escalated_issue\<close>, lines 585 to 605. Its signature has the
  same order of parameters as that of \<^verbatim>\<open>identify_issue\<close>.
\<close>

definition resolve_escalated_issue :: "string \<Rightarrow> string option \<Rightarrow> UserData \<Rightarrow> string \<times> UserData" where
  "resolve_escalated_issue resolution special_accommodation userdata0 =
     (if \<not> escalated userdata0
      then (''I'm not seeing any escalated issue in our system. Could you please explain the issue you're experiencing?'',
            userdata0)
      else
        let response0 = ''I understand this has been a frustrating experience, and I appreciate your patience. Here's what I can do to resolve this issue: ''
                          @ resolution;
            response1 = (if truthy_str special_accommodation
                         then response0
                                @ '' Additionally, as a one-time special accommodation, I'm also offering: ''
                                @ format_opt special_accommodation
                         else response0)
        in (response1 @ '' Is this resolution satisfactory for you?'', userdata0))"

section \<open>Customer support: the session built by the entry point\<close>

text \<open>
  \<^verbatim>\<open>entrypoint\<close> (lines 628 to 654): five agents are created and registered, with empty
  chat contexts; only \<^verbatim>\<open>InitialSupport\<close> has an \<^verbatim>\<open>llm\<close> of its own; the session
  starts with the agent registered as \<^verbatim>\<open>initial\<close>.
\<close>

definition entrypoint_agents :: "agent_ref \<Rightarrow> Agent" where
  "entrypoint_agents r =
     (if r = 0 then \<lparr>class_name = ''InitialSupport'', chat_ctx = [], llm = Some LLM\<rparr>
      else if r = 1 then \<lparr>class_name = ''ReturnsAgent'', chat_ctx = [], llm = None\<rparr>
      else if r = 2 then \<lparr>class_name = ''TechnicalAgent'', chat_ctx = [], llm = None\<rparr>
      else if r = 3 then \<lparr>class_name = ''BillingAgent'', chat_ctx = [], llm = None\<rparr>
      else \<lparr>class_name = ''ManagerAgent'', chat_ctx = [], llm = None\<rparr>)"

definition entrypoint_session :: AgentSession where
  "entrypoint_session =
     \<lparr>userdata = new_UserData
        \<lparr>agents := [''initial'' \<mapsto> 0, ''returns'' \<mapsto> 1, ''technical'' \<mapsto> 2,
                     ''billing'' \<mapsto> 3, ''manager'' \<mapsto> 4]\<rparr>,
      current_agent = 0,
      session_llm = Some LLM,
      agent_objects = entrypoint_agents,
      reply_requests = []\<rparr>"

text \<open>\<^verbatim>\<open>max_tool_steps=5\<close>, the bound that both entry points give the session.\<close>

definition max_tool_steps :: nat where
  "max_tool_steps = 5"

section \<open>Real estate: the shared session state and its tools\<close>

text \<open>
  \<^verbatim>\<open>UserData\<close> of \<^verbatim>\<open>real_estate_agent.py\<close>, lines 73 to 98. The fields that share a
  name with the customer support record carry the prefix \<open>re_\<close>.
\<close>

record RE_UserData =
  re_customer_name :: "string option"
  re_customer_phone :: "string option"
  re_customer_email :: "string option"
  property_preferences :: "(string \<times> pyval) list"
  viewed_properties :: "string list"
  interested_properties :: "string list"
  viewing_date :: "string option"
  viewing_time :: "string option"
  prequalified :: bool
  prequalified_amount :: "int option"
  re_agents :: "string \<rightharpoonup> agent_ref"
  re_prev_agent :: "agent_ref option"

definition new_RE_UserData :: RE_UserData where
  "new_RE_UserData =
     \<lparr>re_customer_name = None, re_customer_phone = None, re_customer_email = None,
      property_preferences =
        [(''min_price'', PNone), (''max_price'', PNone), (''min_bedrooms'', PNone),
         (''min_bathrooms'', PNone), (''property_type'', PNone), (''location'', PNone)],
      viewed_properties = [], interested_properties = [],
      viewing_date = None, viewing_time = None,
      prequalified = False, prequalified_amount = None,
      re_agents = Map.empty, re_prev_agent = None\<rparr>"

text \<open>The dictionary built by \<^verbatim>\<open>UserData.summarize\<close>, lines 101 to 116.\<close>

definition re_summary_data :: "RE_UserData \<Rightarrow> pyval" where
  "re_summary_data self =
     PDict
      [(''customer_name'', or_unknown (re_customer_name self)),
       (''customer_phone'', or_unknown (re_customer_phone self)),
       (''customer_email'', or_unknown (re_customer_email self)),
       (''property_preferences'', PDict (property_preferences self)),
       (''viewed_properties'', PList (map PStr (viewed_properties self))),
       (''interested_properties'', PList (map PStr (interested_properties self))),
       (''viewing_scheduled'',
          (if truthy_str (viewing_date self)
           then PDict [(''date'', opt_str (viewing_date self)),
                       (''time'', opt_str (viewing_time self))]
           else PNone)),
       (''prequalified'',
          PDict [(''status'', PBool (prequalified self)),
                 (''amount'', opt_int (prequalified_amount self))])]"

definition re_summarize :: "(pyval \<Rightarrow> string) \<Rightarrow> RE_UserData \<Rightarrow> string" where
  "re_summarize yaml_dump self = yaml_dump (re_summary_data self)"

text \<open>\<^verbatim>\<open>update_name\<close>, \<^verbatim>\<open>update_phone\<close>, \<^verbatim>\<open>update_email\<close>, lines 124 to 157.\<close>

definition update_name :: "string \<Rightarrow> RE_UserData \<Rightarrow> string \<times> RE_UserData" where
  "update_name name' userdata0 =
     (''Thank you, '' @ name' @ ''. I've updated your name in our system.'',
      userdata0\<lparr>re_customer_name := Some name'\<rparr>)"

definition update_phone :: "string \<Rightarrow> RE_UserData \<Rightarrow> string \<times> RE_UserData" where
  "update_phone phone userdata0 =
     (''Got it. Your phone number ('' @ phone @ '') has been recorded.'',
      userdata0\<lparr>re_customer_phone := Some phone\<rparr>)"

definition update_email :: "string \<Rightarrow> RE_UserData \<Rightarrow> string \<times> RE_UserData" where
  "update_email email userdata0 =
     (''Perfect. I've saved your email address as '' @ email @ ''.'',
      userdata0\<lparr>re_customer_email := Some email\<rparr>)"

text \<open>
  \<^verbatim>\<open>PropertyFinder.update_property_preferences\<close>, lines 272 to 299. An assignment
  \<^verbatim>\<open>d[k] = v\<close> keeps the position of a key that is already there.
\<close>

definition update_property_preferences ::
  "int option \<Rightarrow> int option \<Rightarrow> int option \<Rightarrow> int option \<Rightarrow> string option \<Rightarrow> string option
     \<Rightarrow> RE_UserData \<Rightarrow> string \<times> RE_UserData" where
  "update_property_preferences min_price max_price min_bedrooms min_bathrooms property_type
       location userdata0 =
     (let p0 = property_preferences userdata0;
          p1 = (if truthy_int min_price
                then AList.update ''min_price'' (opt_int min_price) p0 else p0);
          p2 = (if truthy_int max_price
                then AList.update ''max_price'' (opt_int max_price) p1 else p1);
          p3 = (if truthy_int min_bedrooms
                then AList.update ''min_bedrooms'' (opt_int min_bedrooms) p2 else p2);
          p4 = (if truthy_int min_bathrooms
                then AList.update ''min_bathrooms'' (opt_int min_bathrooms) p3 else p3);
          p5 = (if truthy_str property_type
                then AList.update ''property_type'' (opt_str property_type) p4 else p4);
          p6 = (if truthy_str location
                then AList.update ''location'' (opt_str location) p5 else p5)
      in (''I've updated your property preferences. Now I can search for properties that match your criteria.'',
          userdata0\<lparr>property_preferences := p6\<rparr>))"

text \<open>
  \<^verbatim>\<open>PROPERTY_DATABASE\<close> (lines 29 to 70): of each property the id and the address,
  which is all that \<^verbatim>\<open>schedule_viewing\<close> reads.
\<close>

definition PROPERTY_DATABASE :: "(string \<times> string) list" where
  "PROPERTY_DATABASE =
     [(''P001'', ''123 Main Street''),
      (''P002'', ''456 Oak Avenue''),
      (''P003'', ''789 Pine Road''),
      (''P004'', ''101 River Lane'')]"

text \<open>\<^verbatim>\<open>ViewingScheduler.schedule_viewing\<close>, lines 391 to 422.\<close>

definition schedule_viewing ::
  "string \<Rightarrow> string \<Rightarrow> string \<Rightarrow> RE_UserData \<Rightarrow> string \<times> RE_UserData" where
  "schedule_viewing property_address date time userdata0 =
     (case find (\<lambda>prop. str_lower (snd prop) = str_lower property_address) PROPERTY_DATABASE of
        None \<Rightarrow>
          (''I couldn't find a property with the address ''
             @ [CHR 0x27] @ property_address @ [CHR 0x27]
             @ '' in our database. Could you please verify the address?'',
           userdata0)
      | Some property_found \<Rightarrow>
          if \<not> truthy_str (re_customer_name userdata0)
             \<or> \<not> truthy_str (re_customer_phone userdata0)
          then (''Before I can schedule a viewing, I'll need your name and phone number so our agent can contact you.'',
                userdata0)
          else (''Great! I've scheduled a viewing for the property at '' @ property_address
                  @ '' on '' @ date @ '' at '' @ time
                  @ ''. One of our agents will meet you there. They may call you at ''
                  @ format_opt (re_customer_phone userdata0)
                  @ '' to confirm closer to the date.'',
                userdata0\<lparr>viewing_date := Some date, viewing_time := Some time\<rparr>))"

text \<open>
  \<^verbatim>\<open>MortgageAdvisor.prequalify_mortgage\<close>, lines 446 to 490. The estimate is
  floating-point arithmetic that ends in \<^verbatim>\<open>round(max_home_price / 1000) * 1000\<close>, an
  integer; it is the parameter \<open>max_home_price\<close>, a function of the four arguments, and
  \<open>format_thousands\<close> stands for the format \<^verbatim>\<open>{max_home_price:,}\<close>. The parameter
  is total: an income too large for a float, for which the division in the source raises
  \<^verbatim>\<open>OverflowError\<close> once the contact check has passed, has no branch here.
\<close>

definition prequalify_mortgage ::
  "(int \<Rightarrow> int \<Rightarrow> int \<Rightarrow> int \<Rightarrow> int) \<Rightarrow> (int \<Rightarrow> string) \<Rightarrow> int \<Rightarrow> int \<Rightarrow> int \<Rightarrow> int
     \<Rightarrow> RE_UserData \<Rightarrow> string \<times> RE_UserData" where
  "prequalify_mortgage max_home_price format_thousands annual_income credit_score down_payment
       monthly_debt userdata0 =
     (if \<not> truthy_str (re_customer_name userdata0)
         \<or> \<not> truthy_str (re_customer_phone userdata0)
         \<or> \<not> truthy_str (re_customer_email userdata0)
      then (''Before I can pre-qualify you, I'll need your full contact information (name, phone, and email).'',
            userdata0)
      else (''Based on the information you've provided, I estimate you could qualify for a home up to $''
              @ format_thousands
                  (max_home_price annual_income credit_score down_payment monthly_debt)
              @ ''. This is just an estimate - a formal pre-approval would require verification of your income, assets, and credit. Would you like me to connect you with a mortgage specialist to get officially pre-approved?'',
            userdata0\<lparr>prequalified := True,
                      prequalified_amount :=
                        Some (max_home_price annual_income credit_score down_payment
                                monthly_debt)\<rparr>))"

text \<open>
  The real estate \<^verbatim>\<open>BaseAgent._transfer_to_agent\<close> (lines 187 to 193) has the text of
  the customer support one; here it works on the real estate user data and the active
  agent. \<^verbatim>\<open>PropertyFinder.to_viewing_scheduler\<close> (lines 372 to 377) answers with a
  string instead of a handoff when no property has been selected.
\<close>

datatype tool_result = Narrated string | Handoff agent_ref string

definition re_transfer_to_agent ::
  "string \<Rightarrow> agent_ref \<Rightarrow> RE_UserData \<Rightarrow> error + (tool_result \<times> RE_UserData)" where
  "re_transfer_to_agent name' current_agent' userdata0 =
     (case re_agents userdata0 name' of
        None \<Rightarrow> Inl (KeyError name')
      | Some next_agent \<Rightarrow>
          Inr (Handoff next_agent (''Transferring to '' @ name' @ ''.''),
               userdata0\<lparr>re_prev_agent := Some current_agent'\<rparr>))"

definition to_viewing_scheduler ::
  "agent_ref \<Rightarrow> RE_UserData \<Rightarrow> error + (tool_result \<times> RE_UserData)" where
  "to_viewing_scheduler current_agent' userdata0 =
     (if interested_properties userdata0 = []
      then Inr (Narrated ''Before scheduling a viewing, please select at least one property you're interested in.'',
                userdata0)
      else re_transfer_to_agent ''viewingScheduler'' current_agent' userdata0)"

text \<open>
  The user data that the real estate \<^verbatim>\<open>entrypoint\<close> builds (lines 506 to 514): the
  defaults with four agents registered.
\<close>

definition re_entrypoint_userdata :: RE_UserData where
  "re_entrypoint_userdata =
     new_RE_UserData
       \<lparr>re_agents := [''greeter'' \<mapsto> 0, ''propertyFinder'' \<mapsto> 1,
                       ''viewingScheduler'' \<mapsto> 2, ''mortgageAdvisor'' \<mapsto> 3]\<rparr>"

section \<open>The turn loop of the session driver\<close>

text \<open>
  Modelled from the spec: the turn loop of the Session Driver, which is the class
  \<^verbatim>\<open>AgentSession\<close> that the sources import from \<^verbatim>\<open>livekit.agents.voice\<close> and only
  configure (\<^verbatim>\<open>max_tool_steps=5\<close>); its code is not among the source files. After the
  specification: in one turn the language model either narrates a reply or asks for a tool
  operation; a tool operation is dispatched and its result is fed back; once the configured
  maximum of round trips is reached no further tool is dispatched and the turn falls back to
  narrating whatever partial result is available.

  The language model and the tools are parameters. \<open>trips\<close> are the round trips of the
  turn so far, each a call with its result; the natural number counts the round trips
  that are still allowed. The result lists the calls that were dispatched and gives the
  reply.
\<close>

datatype llm_output = Reply string | ToolRequest string

fun turn_loop ::
  "((string \<times> string) list \<Rightarrow> llm_output) \<Rightarrow> (string \<Rightarrow> string)
     \<Rightarrow> ((string \<times> string) list \<Rightarrow> string) \<Rightarrow> nat \<Rightarrow> (string \<times> string) list
     \<Rightarrow> string list \<times> string" where
  "turn_loop llm_backend dispatch narrate 0 trips =
     (case llm_backend trips of
        Reply r \<Rightarrow> ([], r)
      | ToolRequest c \<Rightarrow> ([], narrate trips))"
| "turn_loop llm_backend dispatch narrate (Suc steps_left) trips =
     (case llm_backend trips of
        Reply r \<Rightarrow> ([], r)
      | ToolRequest c \<Rightarrow>
          (let (calls, r) =
                 turn_loop llm_backend dispatch narrate steps_left (trips @ [(c, dispatch c)])
           in (c # calls, r)))"

definition run_turn ::
  "((string \<times> string) list \<Rightarrow> llm_output) \<Rightarrow> (string \<Rightarrow> string)
     \<Rightarrow> ((string \<times> string) list \<Rightarrow> string) \<Rightarrow> nat \<Rightarrow> string list \<times> string" where
  "run_turn llm_backend dispatch narrate max_steps =
     turn_loop llm_backend dispatch narrate max_steps []"

text \<open>
  A language model that asks for a tool in each of its first seven answers of a turn and
  replies after that.
\<close>

definition seven_requests :: "(string \<times> string) list \<Rightarrow> llm_output" where
  "seven_requests trips =
     (if length trips < 7 then ToolRequest ''record_satisfaction'' else Reply ''Goodbye.'')"

section \<open>Applying a handoff\<close>


section \<open>Concrete inputs\<close>

text \<open>A user message whose id is \<open>k\<close> letters long.\<close>

definition msg :: "nat \<Rightarrow> ChatItem" where
  "msg k = ChatMessage (replicate k CHR ''i'') ''user'' ''hello''"


text \<open>
  A conversation of eighteen user messages with one tool call and its result after the
  fourteenth.
\<close>

definition call_history :: "ChatItem list" where
  "call_history =
     map msg [0..<14]
     @ [FunctionCall ''c1'' ''call_1'' ''process_return'' ''{}'',
        FunctionCallOutput ''c2'' ''call_1'' ''approved'']
     @ map msg [14..<18]"


text \<open>
  User data reached through the tools: a technical issue is identified and the returns
  agent then processes a return for the given reason.
\<close>

definition returned_userdata :: "string \<Rightarrow> UserData" where
  "returned_userdata reason =
     snd (process_return reason
       (snd (identify_issue (\<lambda>t. ''technical'') (Some ''A-1001'') (Some ''P001'') TECHNICAL
               ''headphones crackle'' new_UserData)))"

text \<open>
  An optional string that \<^verbatim>\<open>x or "unknown"\<close> leaves recognisable: it is set, not
  empty, and not the word \<^verbatim>\<open>unknown\<close> itself.
\<close>

fun recoverable :: "string option \<Rightarrow> bool" where
  "recoverable None = False"
| "recoverable (Some s) = (s \<noteq> [] \<and> s \<noteq> ''unknown'')"

section \<open>Properties of truncation\<close>

lemma pop_leading_calls_dropWhile:
  "pop_leading_calls xs = dropWhile is_tool_item xs"
  by (induction xs) (simp_all add: is_tool_item_def)

lemma pop_leading_calls_head:
  "list_all (\<lambda>item. \<not> is_tool_item item) (take 1 (pop_leading_calls xs))"
proof (induction xs)
  case Nil
  show ?case by simp
next
  case (Cons x xs)
  show ?case
  proof (cases "is_tool_item x")
    case True
    with Cons show ?thesis by (simp add: is_tool_item_def)
  next
    case False
    then show ?thesis by (simp add: is_tool_item_def)
  qed
qed

text \<open>
  Claim C1. Whatever the items and the three keyword arguments are, the list returned by
  \<^verbatim>\<open>_truncate_chat_ctx\<close> does not begin with a \<^verbatim>\<open>function_call\<close> or a
  \<^verbatim>\<open>function_call_output\<close> item: its first element, when there is one, is not a
  tool item.
\<close>

theorem truncate_chat_ctx_never_starts_with_tool_item:
  "list_all (\<lambda>item. \<not> is_tool_item item)
     (take 1 (truncate_chat_ctx items keep_last_n_messages keep_system_message keep_function_call))"
  unfolding truncate_chat_ctx_def by (rule pop_leading_calls_head)

text \<open>
  With a positive bound the loop collects the first \<open>n\<close> valid items of the reversed
  list, so the function returns the \<open>n\<close> most recent eligible items without their
  leading tool items.
\<close>

lemma valid_item_eligible_item:
  "valid_item ksm kfc item = eligible_item ksm kfc item"
  by (cases item) (auto simp: eligible_item_def is_tool_item_def)

lemma filter_valid_item_eligible:
  "filter (valid_item ksm kfc) items = eligible ksm kfc items"
proof -
  have "valid_item ksm kfc = eligible_item ksm kfc"
    by (rule ext) (rule valid_item_eligible_item)
  then show ?thesis by (simp add: eligible_def)
qed

lemma collect_items_take:
  assumes "int (length acc) < n"
  shows "collect_items n ksm kfc xs acc
           = acc @ take (nat n - length acc) (filter (valid_item ksm kfc) xs)"
  using assms
proof (induction xs arbitrary: acc)
  case Nil
  show ?case by simp
next
  case (Cons x xs)
  show ?case
  proof (cases "valid_item ksm kfc x")
    case False
    with Cons show ?thesis by (simp add: Let_def)
  next
    case True
    show ?thesis
    proof (cases "int (length acc) + 1 \<ge> n")
      case full: True
      with Cons.prems have "nat n - length acc = Suc 0" by linarith
      with True full show ?thesis by (simp add: Let_def)
    next
      case more: False
      then have lt: "int (length (acc @ [x])) < n" by simp
      from more Cons.prems have "nat n - length acc = Suc (nat n - length (acc @ [x]))"
        by simp
      with True more show ?thesis
        using Cons.IH [OF lt] by (simp add: Let_def)
    qed
  qed
qed

lemma truncate_chat_ctx_positive:
  assumes "0 < n"
  shows "truncate_chat_ctx items n ksm kfc
           = dropWhile is_tool_item (most_recent (nat n) (eligible ksm kfc items))"
proof -
  have "collect_items n ksm kfc (rev items) []
          = take (nat n) (filter (valid_item ksm kfc) (rev items))"
    using collect_items_take [of "[]" n ksm kfc "rev items"] assms by simp
  also have "\<dots> = take (nat n) (rev (eligible ksm kfc items))"
    by (simp add: filter_valid_item_eligible [symmetric] rev_filter)
  finally have "rev (collect_items n ksm kfc (rev items) [])
          = most_recent (nat n) (eligible ksm kfc items)"
    by (simp add: most_recent_def rev_take)
  then show ?thesis
    by (simp add: truncate_chat_ctx_def pop_leading_calls_dropWhile)
qed

lemma subseq_most_recent: "subseq (most_recent n xs) xs"
  unfolding most_recent_def by (rule suffix_imp_subseq [OF suffix_drop])

lemma subseq_dropWhile_self: "subseq (dropWhile P xs) xs"
  by (rule suffix_imp_subseq [OF suffix_dropWhile])

lemma truncate_chat_ctx_subseq:
  assumes "0 < n"
  shows "subseq (truncate_chat_ctx items n ksm kfc) items"
proof -
  have "subseq (eligible ksm kfc items) items"
    by (simp add: eligible_def)
  with subseq_most_recent [of "nat n" "eligible ksm kfc items"]
  have "subseq (most_recent (nat n) (eligible ksm kfc items)) items"
    by (rule subseq_order.order_trans)
  with subseq_dropWhile_self
  have "subseq (dropWhile is_tool_item (most_recent (nat n) (eligible ksm kfc items))) items"
    by (rule subseq_order.order_trans)
  then show ?thesis
    by (simp add: truncate_chat_ctx_positive [OF assms])
qed

text \<open>
  Claim C2. When the input holds at least 20 eligible items, truncation with
  \<^verbatim>\<open>keep_last_n_messages = 6\<close> takes exactly the 6 most recent eligible items, returns
  them without the tool items at their front, and the result is a subsequence of the
  input, so the items keep their chronological order.
\<close>

theorem truncate_chat_ctx_keeps_last_six:
  assumes "20 \<le> length (eligible ksm kfc items)"
  shows "length (most_recent 6 (eligible ksm kfc items)) = 6
         \<and> truncate_chat_ctx items 6 ksm kfc
             = dropWhile is_tool_item (most_recent 6 (eligible ksm kfc items))
         \<and> subseq (truncate_chat_ctx items 6 ksm kfc) items"
proof -
  have len: "length (most_recent 6 (eligible ksm kfc items)) = 6"
    using assms by (simp add: most_recent_def)
  have eq: "truncate_chat_ctx items 6 ksm kfc
             = dropWhile is_tool_item (most_recent 6 (eligible ksm kfc items))"
    using truncate_chat_ctx_positive [of 6 items ksm kfc] by simp
  have "subseq (truncate_chat_ctx items 6 ksm kfc) items"
    by (rule truncate_chat_ctx_subseq) simp
  with len eq show ?thesis by simp
qed

theorem truncate_chat_ctx_keeps_last_six_witness:
  "20 \<le> length (eligible False True call_history)
   \<and> most_recent 6 (eligible False True call_history)
       = [FunctionCall ''c1'' ''call_1'' ''process_return'' ''{}'',
          FunctionCallOutput ''c2'' ''call_1'' ''approved'',
          msg 14, msg 15, msg 16, msg 17]
   \<and> truncate_chat_ctx call_history 6 False True = [msg 14, msg 15, msg 16, msg 17]"
proof -
  have h: "20 \<le> length (eligible False True call_history)"
    by code_simp
  have k: "most_recent 6 (eligible False True call_history)
             = [FunctionCall ''c1'' ''call_1'' ''process_return'' ''{}'',
                FunctionCallOutput ''c2'' ''call_1'' ''approved'',
                msg 14, msg 15, msg 16, msg 17]"
    by code_simp
  have r: "dropWhile is_tool_item (most_recent 6 (eligible False True call_history))
             = [msg 14, msg 15, msg 16, msg 17]"
    by code_simp
  from truncate_chat_ctx_keeps_last_six [OF h] h k r show ?thesis
    by simp
qed

section \<open>The history carry-over of the entry hook\<close>

lemma distinct_ids_subseq:
  assumes "subseq xs ys" and "distinct (map item_id ys)"
  shows "distinct (map item_id xs)"
proof -
  from assms(1) have "subseq (map item_id xs) (map item_id ys)"
    by (rule subseq_map)
  then obtain N where "map item_id xs = nths (map item_id ys) N"
    unfolding subseq_conv_nths by blast
  with assms(2) show ?thesis by simp
qed

lemma filtered_ids_disjoint:
  "S \<inter> f ` set (filter (\<lambda>x. f x \<notin> S) xs) = {}"
  by auto

lemma carry_over_eq:
  "carry_over buf hist
     = buf @ filter (\<lambda>item. item_id item \<notin> item_id ` set buf)
               (truncate_chat_ctx hist 6 False True)"
  by (simp add: carry_over_def Let_def)

lemma carry_over_distinct:
  assumes "distinct (map item_id buf)" and "distinct (map item_id hist)"
  shows "distinct (map item_id (carry_over buf hist))"
proof -
  let ?T = "truncate_chat_ctx hist 6 False True"
  let ?F = "filter (\<lambda>item. item_id item \<notin> item_id ` set buf) ?T"
  have "subseq ?T hist" by (rule truncate_chat_ctx_subseq) simp
  then have "distinct (map item_id ?T)"
    using assms(2) by (rule distinct_ids_subseq)
  then have dF: "distinct (map item_id ?F)"
    by (simp add: distinct_map_filter)
  have disj: "item_id ` set buf \<inter> item_id ` set ?F = {}"
    by (rule filtered_ids_disjoint)
  from assms(1) dF disj show ?thesis
    by (simp add: carry_over_eq)
qed

lemma carry_over_again:
  "carry_over (carry_over buf hist) hist = carry_over buf hist"
proof -
  let ?T = "truncate_chat_ctx hist 6 False True"
  let ?F = "filter (\<lambda>item. item_id item \<notin> item_id ` set buf) ?T"
  have "filter (\<lambda>item. item_id item \<notin> item_id ` set (buf @ ?F)) ?T = []"
    by (auto simp: filter_empty_conv)
  then show ?thesis
    by (simp add: carry_over_eq)
qed

text \<open>
  Claim C3. Item ids are unique within a buffer (the data model's invariant). Then the
  carry-over step of the entry hook, performed twice in sequence, leaves a receiving
  buffer in which no two items share an id, whichever histories the two steps draw from;
  and a second step from the same history appends nothing.
\<close>

theorem carry_over_twice_no_duplicate_ids:
  assumes "distinct (map item_id buf)"
    and "distinct (map item_id hist)"
    and "distinct (map item_id hist')"
  shows "distinct (map item_id (carry_over (carry_over buf hist) hist'))
         \<and> carry_over (carry_over buf hist) hist = carry_over buf hist"
proof -
  have "distinct (map item_id (carry_over buf hist))"
    using assms(1,2) by (rule carry_over_distinct)
  then have "distinct (map item_id (carry_over (carry_over buf hist) hist'))"
    using assms(3) by (rule carry_over_distinct)
  then show ?thesis by (simp add: carry_over_again)
qed

theorem carry_over_twice_no_duplicate_ids_witness:
  "distinct (map item_id [msg 1, msg 2])
   \<and> distinct (map item_id (map msg [0..<9]))
   \<and> carry_over [msg 1, msg 2] (map msg [0..<9])
       = [msg 1, msg 2, msg 3, msg 4, msg 5, msg 6, msg 7, msg 8]
   \<and> distinct (map item_id
         (carry_over (carry_over [msg 1, msg 2] (map msg [0..<9])) (map msg [0..<9])))"
proof -
  have b: "distinct (map item_id [msg 1, msg 2])"
    by code_simp
  have h: "distinct (map item_id (map msg [0..<9]))"
    by code_simp
  have r: "carry_over [msg 1, msg 2] (map msg [0..<9])
             = [msg 1, msg 2, msg 3, msg 4, msg 5, msg 6, msg 7, msg 8]"
    by code_simp
  from carry_over_twice_no_duplicate_ids [OF b h h] b h r show ?thesis
    by blast
qed

section \<open>The handoff\<close>

text \<open>
  Claim C4. A handoff to a name that is not a key of \<^verbatim>\<open>userdata.agents\<close> fails: the
  dictionary lookup raises \<^verbatim>\<open>KeyError\<close>, which is the configuration error of the
  specification, and no pair of an agent and a confirmation string is returned. This holds
  for \<^verbatim>\<open>_transfer_to_agent\<close> of the customer support agents and for the one of the
  real estate agents, where the user data stays untouched as well since nothing is
  returned.
\<close>

theorem transfer_to_unregistered_agent_fails:
  "(agents (userdata context) name' = None \<longrightarrow>
      transfer_to_agent name' context = Inl (KeyError name')
      \<and> (\<nexists>result. transfer_to_agent name' context = Inr result))
   \<and> (re_agents re re_name = None \<longrightarrow>
      re_transfer_to_agent re_name active re = Inl (KeyError re_name)
      \<and> (\<nexists>result. re_transfer_to_agent re_name active re = Inr result))"
proof (rule conjI)
  show "agents (userdata context) name' = None \<longrightarrow>
      transfer_to_agent name' context = Inl (KeyError name')
      \<and> (\<nexists>result. transfer_to_agent name' context = Inr result)"
    by (simp add: transfer_to_agent_def Let_def)
next
  show "re_agents re re_name = None \<longrightarrow>
      re_transfer_to_agent re_name active re = Inl (KeyError re_name)
      \<and> (\<nexists>result. re_transfer_to_agent re_name active re = Inr result)"
    by (simp add: re_transfer_to_agent_def)
qed

theorem transfer_to_unregistered_agent_fails_witness:
  "agents (userdata entrypoint_session) ''sales'' = None
   \<and> transfer_to_agent ''sales'' entrypoint_session = Inl (KeyError ''sales'')
   \<and> re_agents re_entrypoint_userdata ''sales'' = None
   \<and> re_transfer_to_agent ''sales'' 0 re_entrypoint_userdata = Inl (KeyError ''sales'')"
proof -
  have h: "agents (userdata entrypoint_session) ''sales'' = None"
    by (simp add: entrypoint_session_def new_UserData_def)
  have g: "re_agents re_entrypoint_userdata ''sales'' = None"
    by (simp add: re_entrypoint_userdata_def new_RE_UserData_def)
  from transfer_to_unregistered_agent_fails
         [of entrypoint_session "''sales''" re_entrypoint_userdata "''sales''" 0] h g
  show ?thesis by simp
qed

text \<open>
  Claim C6. A handoff to a registered name returns the registered agent with the
  confirmation string, and the state it leaves behind is the state it found with
  \<^verbatim>\<open>prev_agent\<close> set to the active agent: the other fields of the user data, the
  registry, the active agent and all agent objects with their chat contexts are as before.
  This holds for \<^verbatim>\<open>_transfer_to_agent\<close> of the customer support agents and for the
  one of the real estate agents.
\<close>

theorem transfer_to_agent_only_sets_prev_agent:
  "(agents (userdata context) name' = Some target \<longrightarrow>
      transfer_to_agent name' context
        = Inr (context\<lparr>userdata :=
                 (userdata context)\<lparr>prev_agent := Some (current_agent context)\<rparr>\<rparr>,
               (target, ''Transferring to '' @ name' @ ''.'')))
   \<and> (re_agents re re_name = Some re_target \<longrightarrow>
      re_transfer_to_agent re_name active re
        = Inr (Handoff re_target (''Transferring to '' @ re_name @ ''.''),
               re\<lparr>re_prev_agent := Some active\<rparr>))"
proof (rule conjI)
  show "agents (userdata context) name' = Some target \<longrightarrow>
      transfer_to_agent name' context
        = Inr (context\<lparr>userdata :=
                 (userdata context)\<lparr>prev_agent := Some (current_agent context)\<rparr>\<rparr>,
               (target, ''Transferring to '' @ name' @ ''.''))"
    by (simp add: transfer_to_agent_def Let_def)
next
  show "re_agents re re_name = Some re_target \<longrightarrow>
      re_transfer_to_agent re_name active re
        = Inr (Handoff re_target (''Transferring to '' @ re_name @ ''.''),
               re\<lparr>re_prev_agent := Some active\<rparr>)"
    by (simp add: re_transfer_to_agent_def)
qed

theorem transfer_to_agent_only_sets_prev_agent_witness:
  "agents (userdata entrypoint_session) ''billing'' = Some 3
   \<and> transfer_to_agent ''billing'' entrypoint_session
       = Inr (entrypoint_session
                \<lparr>userdata := (userdata entrypoint_session)\<lparr>prev_agent := Some 0\<rparr>\<rparr>,
              (3, ''Transferring to billing.''))
   \<and> re_agents re_entrypoint_userdata ''mortgageAdvisor'' = Some 3
   \<and> re_transfer_to_agent ''mortgageAdvisor'' 0 re_entrypoint_userdata
       = Inr (Handoff 3 ''Transferring to mortgageAdvisor.'',
              re_entrypoint_userdata\<lparr>re_prev_agent := Some 0\<rparr>)"
proof -
  have h: "agents (userdata entrypoint_session) ''billing'' = Some 3"
    by (simp add: entrypoint_session_def new_UserData_def)
  have c: "current_agent entrypoint_session = 0"
    by (simp add: entrypoint_session_def)
  have g: "re_agents re_entrypoint_userdata ''mortgageAdvisor'' = Some 3"
    by (simp add: re_entrypoint_userdata_def new_RE_UserData_def)
  from transfer_to_agent_only_sets_prev_agent
         [of entrypoint_session "''billing''" 3 re_entrypoint_userdata "''mortgageAdvisor''"
             3 0] h c g
  show ?thesis by simp
qed

section \<open>The summary in the entry hook\<close>











section \<open>What the summary determines\<close>

lemma or_unknown_recoverable:
  assumes "or_unknown a = or_unknown b" and "recoverable a"
  shows "b = a"
proof (cases a)
  case None
  with assms(2) show ?thesis by simp
next
  case (Some x)
  with assms show ?thesis by (cases b) (auto split: if_splits)
qed

lemma summary_data_fields:
  assumes "summary_data a = summary_data b"
  shows "or_unknown (customer_name a) = or_unknown (customer_name b)"
    and "or_unknown (customer_email a) = or_unknown (customer_email b)"
    and "or_unknown (customer_phone a) = or_unknown (customer_phone b)"
    and "or_unknown (order_number a) = or_unknown (order_number b)"
    and "or_unknown (product_id a) = or_unknown (product_id b)"
    and "or_unknown (issue_description a) = or_unknown (issue_description b)"
    and "issue_type a = issue_type b"
    and "escalated a = escalated b"
    and "opt_str (escalation_reason a) = opt_str (escalation_reason b)"
    and "opt_int (satisfaction_rating a) = opt_int (satisfaction_rating b)"
  using assms by (auto simp: summary_data_def split: option.splits if_splits)

lemma opt_str_inj: "opt_str a = opt_str b \<Longrightarrow> a = b"
  by (cases a; cases b) simp_all

lemma opt_int_inj: "opt_int a = opt_int b \<Longrightarrow> a = b"
  by (cases a; cases b) simp_all

lemma opt_float_inj: "opt_float a = opt_float b \<Longrightarrow> a = b"
  by (cases a; cases b) simp_all

lemma summary_data_return_status:
  assumes "summary_data a = summary_data b" and "issue_type a = Some RETURN"
  shows "return_reason a = return_reason b \<and> return_approved a = return_approved b
         \<and> return_label_sent a = return_label_sent b"
proof -
  from summary_data_fields(7) [OF assms(1)] assms(2) have "issue_type b = Some RETURN"
    by simp
  with assms show ?thesis
    by (simp add: summary_data_def opt_str_inj)
qed

lemma summary_data_billing_status:
  assumes "summary_data a = summary_data b" and "issue_type a = Some BILLING"
  shows "refund_amount a = refund_amount b \<and> refund_approved a = refund_approved b"
proof -
  from summary_data_fields(7) [OF assms(1)] assms(2) have "issue_type b = Some BILLING"
    by simp
  with assms show ?thesis
    by (simp add: summary_data_def opt_float_inj)
qed

lemma map_PStr_inj: "map PStr xs = map PStr ys \<Longrightarrow> xs = ys"
  by (induction xs arbitrary: ys) auto

lemma re_summary_data_fields:
  assumes "re_summary_data a = re_summary_data b"
  shows "or_unknown (re_customer_name a) = or_unknown (re_customer_name b)"
    and "or_unknown (re_customer_phone a) = or_unknown (re_customer_phone b)"
    and "or_unknown (re_customer_email a) = or_unknown (re_customer_email b)"
    and "property_preferences a = property_preferences b"
    and "map PStr (viewed_properties a) = map PStr (viewed_properties b)"
    and "map PStr (interested_properties a) = map PStr (interested_properties b)"
    and "prequalified a = prequalified b"
    and "opt_int (prequalified_amount a) = opt_int (prequalified_amount b)"
    and "truthy_str (viewing_date a) \<Longrightarrow>
           opt_str (viewing_date a) = opt_str (viewing_date b)
           \<and> opt_str (viewing_time a) = opt_str (viewing_time b)"
  using assms by (auto simp: re_summary_data_def split: if_splits)

section \<open>Tools whose precondition is not met\<close>

text \<open>
  Claim C7. Each tool that checks the user data first returns its guidance string and the
  user data unchanged when the check fails: \<^verbatim>\<open>process_return\<close> and
  \<^verbatim>\<open>process_refund\<close> without an order number, and likewise the other guarded tools
  of the customer support agents and of the real estate agents.
\<close>

theorem unmet_precondition_gives_guidance_without_mutation:
  "(\<not> truthy_str (order_number ud) \<or> \<not> truthy_str (product_id ud) \<longrightarrow>
      process_return reason ud
        = (''Before I can process your return, I'll need your order number and the product ID. Do you have those available?'',
           ud))
   \<and> (\<not> truthy_str (order_number ud) \<or> \<not> truthy_str (customer_email ud) \<longrightarrow>
      process_refund format_2f amount ud
        = (if \<not> truthy_str (order_number ud)
           then ''Before I can process a refund, I'll need your order number. Do you have that available?''
           else ''I'll need your email address to process the refund. Could you please provide that?'',
           ud))
   \<and> (\<not> return_approved ud \<or> \<not> truthy_str (customer_email ud) \<longrightarrow>
      send_return_label ud
        = (if \<not> return_approved ud
           then ''I see that your return hasn't been approved yet. Let's first verify if your product is eligible for return.''
           else ''I'll need your email address to send the return label. Could you please provide that?'',
           ud))
   \<and> (\<not> truthy_str (customer_email ud) \<longrightarrow>
      manage_subscription action ud
        = (''I'll need your email address to locate your subscription. Could you please provide that?'',
           ud))
   \<and> (\<not> escalated ud \<longrightarrow>
      resolve_escalated_issue resolution special_accommodation ud
        = (''I'm not seeing any escalated issue in our system. Could you please explain the issue you're experiencing?'',
           ud))
   \<and> (\<not> truthy_str (product_id ud) \<and> \<not> truthy_str (issue_description ud) \<longrightarrow>
      troubleshoot_issue ud
        = (''To help troubleshoot your issue, I'll need more details about the product and the problem you're experiencing. Could you describe what's happening?'',
           ud))
   \<and> (\<not> truthy_str (re_customer_name re) \<or> \<not> truthy_str (re_customer_phone re) \<longrightarrow>
      schedule_viewing property_address date time re
        = (if find (\<lambda>prop. str_lower (snd prop) = str_lower property_address)
                PROPERTY_DATABASE = None
           then ''I couldn't find a property with the address ''
                  @ [CHR 0x27] @ property_address @ [CHR 0x27]
                  @ '' in our database. Could you please verify the address?''
           else ''Before I can schedule a viewing, I'll need your name and phone number so our agent can contact you.'',
           re))
   \<and> (\<not> truthy_str (re_customer_name re) \<or> \<not> truthy_str (re_customer_phone re)
        \<or> \<not> truthy_str (re_customer_email re) \<longrightarrow>
      prequalify_mortgage max_home_price format_thousands annual_income credit_score
          down_payment monthly_debt re
        = (''Before I can pre-qualify you, I'll need your full contact information (name, phone, and email).'',
           re))
   \<and> (interested_properties re = [] \<longrightarrow>
      to_viewing_scheduler active re
        = Inr (Narrated ''Before scheduling a viewing, please select at least one property you're interested in.'',
               re))"
proof (intro conjI)
  show "\<not> truthy_str (order_number ud) \<or> \<not> truthy_str (product_id ud) \<longrightarrow>
      process_return reason ud
        = (''Before I can process your return, I'll need your order number and the product ID. Do you have those available?'',
           ud)"
    by (simp add: process_return_def)
  show "\<not> truthy_str (order_number ud) \<or> \<not> truthy_str (customer_email ud) \<longrightarrow>
      process_refund format_2f amount ud
        = (if \<not> truthy_str (order_number ud)
           then ''Before I can process a refund, I'll need your order number. Do you have that available?''
           else ''I'll need your email address to process the refund. Could you please provide that?'',
           ud)"
    by (simp add: process_refund_def)
  show "\<not> return_approved ud \<or> \<not> truthy_str (customer_email ud) \<longrightarrow>
      send_return_label ud
        = (if \<not> return_approved ud
           then ''I see that your return hasn't been approved yet. Let's first verify if your product is eligible for return.''
           else ''I'll need your email address to send the return label. Could you please provide that?'',
           ud)"
    by (simp add: send_return_label_def)
  show "\<not> truthy_str (customer_email ud) \<longrightarrow>
      manage_subscription action ud
        = (''I'll need your email address to locate your subscription. Could you please provide that?'',
           ud)"
    by (simp add: manage_subscription_def)
  show "\<not> escalated ud \<longrightarrow>
      resolve_escalated_issue resolution special_accommodation ud
        = (''I'm not seeing any escalated issue in our system. Could you please explain the issue you're experiencing?'',
           ud)"
    by (simp add: resolve_escalated_issue_def)
  show "\<not> truthy_str (product_id ud) \<and> \<not> truthy_str (issue_description ud) \<longrightarrow>
      troubleshoot_issue ud
        = (''To help troubleshoot your issue, I'll need more details about the product and the problem you're experiencing. Could you describe what's happening?'',
           ud)"
    by (simp add: troubleshoot_issue_def)
  show "\<not> truthy_str (re_customer_name re) \<or> \<not> truthy_str (re_customer_phone re) \<longrightarrow>
      schedule_viewing property_address date time re
        = (if find (\<lambda>prop. str_lower (snd prop) = str_lower property_address)
                PROPERTY_DATABASE = None
           then ''I couldn't find a property with the address ''
                  @ [CHR 0x27] @ property_address @ [CHR 0x27]
                  @ '' in our database. Could you please verify the address?''
           else ''Before I can schedule a viewing, I'll need your name and phone number so our agent can contact you.'',
           re)"
    by (simp add: schedule_viewing_def split: option.split)
  show "\<not> truthy_str (re_customer_name re) \<or> \<not> truthy_str (re_customer_phone re)
        \<or> \<not> truthy_str (re_customer_email re) \<longrightarrow>
      prequalify_mortgage max_home_price format_thousands annual_income credit_score
          down_payment monthly_debt re
        = (''Before I can pre-qualify you, I'll need your full contact information (name, phone, and email).'',
           re)"
    by (simp add: prequalify_mortgage_def)
  show "interested_properties re = [] \<longrightarrow>
      to_viewing_scheduler active re
        = Inr (Narrated ''Before scheduling a viewing, please select at least one property you're interested in.'',
               re)"
    by (simp add: to_viewing_scheduler_def)
qed

theorem unmet_precondition_gives_guidance_without_mutation_witness:
  "\<not> truthy_str (order_number new_UserData)
   \<and> \<not> return_approved new_UserData
   \<and> \<not> truthy_str (customer_email new_UserData)
   \<and> \<not> escalated new_UserData
   \<and> \<not> truthy_str (product_id new_UserData)
   \<and> \<not> truthy_str (issue_description new_UserData)
   \<and> snd (process_return ''too small'' new_UserData) = new_UserData
   \<and> snd (process_refund (\<lambda>amount. ''20.00'') 20 new_UserData) = new_UserData
   \<and> order_number (snd (process_refund (\<lambda>amount. ''20.00'') 20 new_UserData)) = None
   \<and> snd (send_return_label new_UserData) = new_UserData
   \<and> snd (manage_subscription ''cancel'' new_UserData) = new_UserData
   \<and> snd (resolve_escalated_issue ''a voucher'' None new_UserData) = new_UserData
   \<and> snd (troubleshoot_issue new_UserData) = new_UserData
   \<and> \<not> truthy_str (re_customer_name new_RE_UserData)
   \<and> interested_properties new_RE_UserData = []
   \<and> schedule_viewing ''123 main street'' ''2025-07-01'' ''10:00 AM'' new_RE_UserData
       = (''Before I can schedule a viewing, I'll need your name and phone number so our agent can contact you.'',
          new_RE_UserData)
   \<and> snd (prequalify_mortgage (\<lambda>a b c d. 300000) (\<lambda>n. ''300,000'') 90000 700 40000 500
             new_RE_UserData)
       = new_RE_UserData
   \<and> to_viewing_scheduler 1 new_RE_UserData
       = Inr (Narrated ''Before scheduling a viewing, please select at least one property you're interested in.'',
              new_RE_UserData)"
proof -
  have h: "\<not> truthy_str (order_number new_UserData)"
    "\<not> return_approved new_UserData"
    "\<not> truthy_str (customer_email new_UserData)"
    "\<not> escalated new_UserData"
    "\<not> truthy_str (product_id new_UserData)"
    "\<not> truthy_str (issue_description new_UserData)"
    "order_number new_UserData = None"
    by (simp_all add: new_UserData_def)
  have g: "\<not> truthy_str (re_customer_name new_RE_UserData)"
    "interested_properties new_RE_UserData = []"
    by (simp_all add: new_RE_UserData_def)
  have a: "find (\<lambda>prop. str_lower (snd prop) = str_lower ''123 main street'')
             PROPERTY_DATABASE \<noteq> None"
    by code_simp
  from unmet_precondition_gives_guidance_without_mutation
         [of new_UserData "''too small''" "\<lambda>amount. ''20.00''" 20 "''cancel''"
             "''a voucher''" None new_RE_UserData "''123 main street''" "''2025-07-01''"
             "''10:00 AM''" "\<lambda>a b c d. 300000" "\<lambda>n. ''300,000''" 90000 700 40000 500 1]
       h g a
  show ?thesis by simp
qed

section \<open>Reading the summary back\<close>

text \<open>
  Claim C8, as amended. The text of a summary is the dump of the summary dictionary, so
  what can be read back from it is what that dictionary determines. Two user data records
  with the same summary dictionary agree on the issue type, the escalation fields and the
  satisfaction rating; on the return fields while the issue type is \<^verbatim>\<open>RETURN\<close> and
  on the refund fields while it is \<^verbatim>\<open>BILLING\<close>; and on each customer and issue string
  that is set, not empty and not the word \<^verbatim>\<open>unknown\<close>. For the real estate record
  they agree on the preferences, the property lists, the prequalification, the viewing
  date and time while a date is set, and the customer strings under the same condition.
\<close>

theorem summary_determines_fields:
  "(summary_data a = summary_data b \<longrightarrow>
      issue_type b = issue_type a
      \<and> escalated b = escalated a
      \<and> escalation_reason b = escalation_reason a
      \<and> satisfaction_rating b = satisfaction_rating a
      \<and> (issue_type a = Some RETURN \<longrightarrow>
            return_reason b = return_reason a \<and> return_approved b = return_approved a
            \<and> return_label_sent b = return_label_sent a)
      \<and> (issue_type a = Some BILLING \<longrightarrow>
            refund_amount b = refund_amount a \<and> refund_approved b = refund_approved a)
      \<and> (recoverable (customer_name a) \<longrightarrow> customer_name b = customer_name a)
      \<and> (recoverable (customer_email a) \<longrightarrow> customer_email b = customer_email a)
      \<and> (recoverable (customer_phone a) \<longrightarrow> customer_phone b = customer_phone a)
      \<and> (recoverable (order_number a) \<longrightarrow> order_number b = order_number a)
      \<and> (recoverable (product_id a) \<longrightarrow> product_id b = product_id a)
      \<and> (recoverable (issue_description a) \<longrightarrow> issue_description b = issue_description a))
   \<and> (re_summary_data c = re_summary_data d \<longrightarrow>
      property_preferences d = property_preferences c
      \<and> viewed_properties d = viewed_properties c
      \<and> interested_properties d = interested_properties c
      \<and> prequalified d = prequalified c
      \<and> prequalified_amount d = prequalified_amount c
      \<and> (truthy_str (viewing_date c) \<longrightarrow>
            viewing_date d = viewing_date c \<and> viewing_time d = viewing_time c)
      \<and> (recoverable (re_customer_name c) \<longrightarrow> re_customer_name d = re_customer_name c)
      \<and> (recoverable (re_customer_phone c) \<longrightarrow> re_customer_phone d = re_customer_phone c)
      \<and> (recoverable (re_customer_email c) \<longrightarrow> re_customer_email d = re_customer_email c))"
  (is "(?eq1 \<longrightarrow> ?support) \<and> (?eq2 \<longrightarrow> ?estate)")
proof (rule conjI)
  show "?eq1 \<longrightarrow> ?support"
  proof (rule impI)
    assume eq: ?eq1
    note f = summary_data_fields [OF eq]
    have 1: "issue_type b = issue_type a" using f(7) by simp
    have 2: "escalated b = escalated a" using f(8) by simp
    have 3: "escalation_reason b = escalation_reason a"
      using opt_str_inj [OF f(9)] by simp
    have 4: "satisfaction_rating b = satisfaction_rating a"
      using opt_int_inj [OF f(10)] by simp
    have 5: "issue_type a = Some RETURN \<longrightarrow>
            return_reason b = return_reason a \<and> return_approved b = return_approved a
            \<and> return_label_sent b = return_label_sent a"
      using summary_data_return_status [OF eq] by simp
    have 6: "issue_type a = Some BILLING \<longrightarrow>
            refund_amount b = refund_amount a \<and> refund_approved b = refund_approved a"
      using summary_data_billing_status [OF eq] by simp
    have 7: "recoverable (customer_name a) \<longrightarrow> customer_name b = customer_name a"
      using or_unknown_recoverable [OF f(1)] by blast
    have 8: "recoverable (customer_email a) \<longrightarrow> customer_email b = customer_email a"
      using or_unknown_recoverable [OF f(2)] by blast
    have 9: "recoverable (customer_phone a) \<longrightarrow> customer_phone b = customer_phone a"
      using or_unknown_recoverable [OF f(3)] by blast
    have 10: "recoverable (order_number a) \<longrightarrow> order_number b = order_number a"
      using or_unknown_recoverable [OF f(4)] by blast
    have 11: "recoverable (product_id a) \<longrightarrow> product_id b = product_id a"
      using or_unknown_recoverable [OF f(5)] by blast
    have 12: "recoverable (issue_description a) \<longrightarrow> issue_description b = issue_description a"
      using or_unknown_recoverable [OF f(6)] by blast
    from 1 2 3 4 5 6 7 8 9 10 11 12 show ?support by blast
  qed
next
  show "?eq2 \<longrightarrow> ?estate"
  proof (rule impI)
    assume eq: ?eq2
    note g = re_summary_data_fields [OF eq]
    have 1: "property_preferences d = property_preferences c" using g(4) by simp
    have 2: "viewed_properties d = viewed_properties c"
      using map_PStr_inj [OF g(5)] by simp
    have 3: "interested_properties d = interested_properties c"
      using map_PStr_inj [OF g(6)] by simp
    have 4: "prequalified d = prequalified c" using g(7) by simp
    have 5: "prequalified_amount d = prequalified_amount c"
      using opt_int_inj [OF g(8)] by simp
    have 6: "truthy_str (viewing_date c) \<longrightarrow>
            viewing_date d = viewing_date c \<and> viewing_time d = viewing_time c"
      using g(9) opt_str_inj by metis
    have 7: "recoverable (re_customer_name c) \<longrightarrow> re_customer_name d = re_customer_name c"
      using or_unknown_recoverable [OF g(1)] by blast
    have 8: "recoverable (re_customer_phone c) \<longrightarrow> re_customer_phone d = re_customer_phone c"
      using or_unknown_recoverable [OF g(2)] by blast
    have 9: "recoverable (re_customer_email c) \<longrightarrow> re_customer_email d = re_customer_email c"
      using or_unknown_recoverable [OF g(3)] by blast
    from 1 2 3 4 5 6 7 8 9 show ?estate by blast
  qed
qed

theorem summary_determines_fields_witness:
  "summary_data (returned_userdata ''arrived broken'')
     = summary_data (returned_userdata ''changed my mind'')
   \<and> re_summary_data (snd (update_name ''unknown'' new_RE_UserData))
       = re_summary_data new_RE_UserData
   \<and> recoverable (order_number (returned_userdata ''arrived broken''))
   \<and> order_number (returned_userdata ''changed my mind'') = Some ''A-1001''
   \<and> property_preferences (snd (update_name ''unknown'' new_RE_UserData))
       = property_preferences new_RE_UserData"
proof -
  have e1: "summary_data (returned_userdata ''arrived broken'')
              = summary_data (returned_userdata ''changed my mind'')"
    by (simp add: returned_userdata_def process_return_def identify_issue_def
          new_UserData_def summary_data_def PRODUCT_DATABASE_def Let_def)
  have e2: "re_summary_data new_RE_UserData
              = re_summary_data (snd (update_name ''unknown'' new_RE_UserData))"
    by (simp add: update_name_def new_RE_UserData_def re_summary_data_def)
  have o: "order_number (returned_userdata ''arrived broken'') = Some ''A-1001''"
    by (simp add: returned_userdata_def process_return_def identify_issue_def
          new_UserData_def PRODUCT_DATABASE_def Let_def)
  then have r: "recoverable (order_number (returned_userdata ''arrived broken''))"
    by simp
  from summary_determines_fields
         [of "returned_userdata ''arrived broken''" "returned_userdata ''changed my mind''"
             new_RE_UserData "snd (update_name ''unknown'' new_RE_UserData)"]
       e1 e2 o r
  show ?thesis by simp
qed

text \<open>
  The claim as stated fails: two returns processed for a technical issue with different
  reasons have the same summary dictionary, hence the same text under any dumper, and no
  parser can tell the two reasons apart.
\<close>

theorem summary_does_not_determine_return_reason:
  "return_reason (returned_userdata ''arrived broken'') = Some ''arrived broken''
   \<and> return_reason (returned_userdata ''changed my mind'') = Some ''changed my mind''
   \<and> summary_data (returned_userdata ''arrived broken'')
       = summary_data (returned_userdata ''changed my mind'')"
  by (simp add: returned_userdata_def process_return_def identify_issue_def
        new_UserData_def summary_data_def PRODUCT_DATABASE_def Let_def)

section \<open>The step limit of a turn\<close>

lemma turn_loop_bound:
  "length (fst (turn_loop llm_backend dispatch narrate steps_left trips)) \<le> steps_left"
proof (induction steps_left arbitrary: trips)
  case 0
  show ?case by (simp split: llm_output.split)
next
  case (Suc k)
  show ?case
  proof (cases "llm_backend trips")
    case (Reply r)
    then show ?thesis by simp
  next
    case (ToolRequest c)
    with Suc [of "trips @ [(c, dispatch c)]"] show ?thesis
      by (simp add: split_beta)
  qed
qed

lemma seven_requests_turn:
  "turn_loop seven_requests dispatch narrate (Suc (Suc (Suc (Suc (Suc 0))))) []
     = (replicate 5 ''record_satisfaction'',
        narrate (replicate 5 (''record_satisfaction'', dispatch ''record_satisfaction'')))"
  by (simp add: seven_requests_def eval_nat_numeral)

text \<open>
  Claim C9. In the turn loop modelled from the specification, a turn never dispatches more
  tool operations than the step limit, and it always ends with a reply. With the limit of
  5 that the entry points configure, a language model that asks for seven tools has five
  dispatched and the turn ends with the narration of those five results.
\<close>

theorem turn_loop_respects_step_limit:
  "length (fst (run_turn llm_backend dispatch narrate max_steps)) \<le> max_steps
   \<and> run_turn seven_requests dispatch narrate max_tool_steps
       = (replicate 5 ''record_satisfaction'',
          narrate (replicate 5 (''record_satisfaction'', dispatch ''record_satisfaction'')))"
proof -
  have "max_tool_steps = Suc (Suc (Suc (Suc (Suc 0))))"
    by (simp add: max_tool_steps_def eval_nat_numeral)
  then show ?thesis
    unfolding run_turn_def using turn_loop_bound seven_requests_turn by simp
qed

section \<open>Falsy arguments\<close>

lemma map_of_update_other:
  "k \<noteq> k' \<Longrightarrow> map_of (AList.update k' v al) k = map_of al k"
  by (simp add: update_conv')

text \<open>
  Claim C10. \<^verbatim>\<open>update_property_preferences\<close> leaves a preference as it was when the
  argument for it is \<^verbatim>\<open>None\<close>, the number 0 or the empty string, and
  \<^verbatim>\<open>update_customer_info\<close> leaves a customer field as it was when the argument for
  it is \<^verbatim>\<open>None\<close> or the empty string.
\<close>

theorem falsy_arguments_are_ignored:
  "(min_price \<in> {None, Some 0} \<longrightarrow>
      map_of (property_preferences (snd (update_property_preferences min_price max_price
                min_bedrooms min_bathrooms property_type location ud))) ''min_price''
        = map_of (property_preferences ud) ''min_price'')
   \<and> (max_price \<in> {None, Some 0} \<longrightarrow>
      map_of (property_preferences (snd (update_property_preferences min_price max_price
                min_bedrooms min_bathrooms property_type location ud))) ''max_price''
        = map_of (property_preferences ud) ''max_price'')
   \<and> (min_bedrooms \<in> {None, Some 0} \<longrightarrow>
      map_of (property_preferences (snd (update_property_preferences min_price max_price
                min_bedrooms min_bathrooms property_type location ud))) ''min_bedrooms''
        = map_of (property_preferences ud) ''min_bedrooms'')
   \<and> (min_bathrooms \<in> {None, Some 0} \<longrightarrow>
      map_of (property_preferences (snd (update_property_preferences min_price max_price
                min_bedrooms min_bathrooms property_type location ud))) ''min_bathrooms''
        = map_of (property_preferences ud) ''min_bathrooms'')
   \<and> (property_type \<in> {None, Some []} \<longrightarrow>
      map_of (property_preferences (snd (update_property_preferences min_price max_price
                min_bedrooms min_bathrooms property_type location ud))) ''property_type''
        = map_of (property_preferences ud) ''property_type'')
   \<and> (location \<in> {None, Some []} \<longrightarrow>
      map_of (property_preferences (snd (update_property_preferences min_price max_price
                min_bedrooms min_bathrooms property_type location ud))) ''location''
        = map_of (property_preferences ud) ''location'')
   \<and> (name' \<in> {None, Some []} \<longrightarrow>
      customer_name (snd (update_customer_info name' email phone cs)) = customer_name cs)
   \<and> (email \<in> {None, Some []} \<longrightarrow>
      customer_email (snd (update_customer_info name' email phone cs)) = customer_email cs)
   \<and> (phone \<in> {None, Some []} \<longrightarrow>
      customer_phone (snd (update_customer_info name' email phone cs)) = customer_phone cs)"
  by (auto simp: update_property_preferences_def update_customer_info_def Let_def
        map_of_update_other)

theorem falsy_arguments_are_ignored_witness:
  "map_of (property_preferences
       (snd (update_property_preferences (Some 0) (Some 0) None (Some 0) (Some []) None
          (snd (update_property_preferences (Some 100000) None None None None None
                  new_RE_UserData))))) ''min_price''
     = Some (PInt 100000)
   \<and> customer_name
       (snd (update_customer_info (Some []) None (Some [])
          (snd (update_customer_info (Some ''Ada'') None None new_UserData))))
     = Some ''Ada''"
proof -
  have p: "map_of (property_preferences
              (snd (update_property_preferences (Some 100000) None None None None None
                      new_RE_UserData))) ''min_price''
             = Some (PInt 100000)"
    by (simp add: update_property_preferences_def new_RE_UserData_def Let_def)
  have c: "customer_name (snd (update_customer_info (Some ''Ada'') None None new_UserData))
             = Some ''Ada''"
    by (simp add: update_customer_info_def new_UserData_def Let_def)
  from falsy_arguments_are_ignored
         [of "Some 0" "Some 0" None "Some 0" "Some []" None
             "snd (update_property_preferences (Some 100000) None None None None None
                     new_RE_UserData)"
             "Some []" None "Some []"
             "snd (update_customer_info (Some ''Ada'') None None new_UserData)"]
       p c
  show ?thesis by simp
qed

end
